theory Spec2Isabelle
  imports Complex_Main "HOL-Library.Log_Nat"
begin

section \<open>Data model (src/constants.tsx, the type declarations)\<close>

text \<open>
  JavaScript numbers are idealised as \<open>real\<close>: NaN and the infinities are not
  represented, and the handlers of the first sections compute without rounding (the
  rounding of IEEE-754 doubles is written out in a later section, for the balance
  arithmetic). A division is written as the source writes it; where a
  result depends on the value of a quotient, the theorems below assume the divisor is not
  zero, because HOL's \<open>x / 0 = 0\<close> is not what JavaScript computes there.
  An optional field (\<open>exitPrice?: number\<close>) is an \<open>option\<close>.
\<close>

datatype Mode = TRIAL | LIVE

datatype TradeType = BUY | SELL

datatype TradeStatus = OPEN | CLOSED

datatype InsightAction = ActBUY | ActSELL | ActHOLD

datatype Role = TRADER | MANAGER

record User =
  user_id :: string
  user_name :: string
  email :: string
  role :: Role
  avatar :: "string option"

record RiskSettings =
  defaultStopLoss :: real
  defaultTakeProfit :: real
  maxDrawdown :: real
  useProxy :: "bool option"
  proxyUrl :: "string option"
  aiMaxPositionSize :: real
  aiRiskPercent :: real

record KeyLevels =
  support :: real
  resistance :: real

text \<open>The object returned by the fallback branch of \<open>generateMarketInsight\<close>.\<close>

record AIInsight =
  insight_pair :: string
  confidence :: real
  action :: InsightAction
  reasoning :: string
  keyLevels :: KeyLevels
  insight_timestamp :: int
  source :: string

record Trade =
  trade_id :: string
  pair :: string
  type :: TradeType
  entryPrice :: real
  exitPrice :: "real option"
  amount :: real
  status :: TradeStatus
  pnl :: "real option"
  timestamp :: int
  stopLoss :: "real option"
  takeProfit :: "real option"
  accountType :: "Mode option"

text \<open>An entry of \<open>marketPrices\<close>.\<close>

record Quote =
  price :: real
  change :: string
  up :: bool

section \<open>Application state (src/App.tsx)\<close>

text \<open>
  The \<open>useState\<close> cells and \<open>useRef\<close> cells of \<open>App\<close> that the trading engine
  reads or writes, as one record. The log, the latency display, the active tab and the
  backend status are presentation only and are left out.
\<close>

record AppState =
  user :: "User option"
  mode :: Mode
  isAutoPilot :: bool
  priceHistory :: "string \<rightharpoonup> real list"
  consecutiveLosses :: int
  dailyPnL :: real
  systemAlert :: "string option"
  trialBalance :: real
  liveBalance :: real
  marketPrices :: "string \<rightharpoonup> Quote"
  riskSettings :: RiskSettings
  trades :: "Trade list"

definition DEFAULT_RISK :: RiskSettings where
  "DEFAULT_RISK =
     \<lparr>defaultStopLoss = 2, defaultTakeProfit = 5, maxDrawdown = 15,
      useProxy = Some False, proxyUrl = Some ''https://cors-anywhere.herokuapp.com/'',
      aiMaxPositionSize = 50, aiRiskPercent = 2\<rparr>"

text \<open>\<open>const currentBalance = mode === Mode.TRIAL ? trialBalance : liveBalance\<close>\<close>

definition currentBalance :: "AppState \<Rightarrow> real" where
  "currentBalance st = (if mode st = TRIAL then trialBalance st else liveBalance st)"

subsection \<open>JavaScript helpers\<close>

text \<open>
  \<open>marketPrices[p]?.price || d\<close>: the quote's price when the pair is known and the
  price is truthy (not zero), else \<open>d\<close>.
\<close>

definition priceOr :: "(string \<rightharpoonup> Quote) \<Rightarrow> string \<Rightarrow> real \<Rightarrow> real" where
  "priceOr mp p d =
     (case mp p of None \<Rightarrow> d | Some q \<Rightarrow> if price q = 0 then d else price q)"

text \<open>\<open>Array.prototype.findIndex\<close>; \<open>None\<close> is the source's \<open>-1\<close>.\<close>

fun findIndex :: "('a \<Rightarrow> bool) \<Rightarrow> 'a list \<Rightarrow> nat option" where
  "findIndex P [] = None"
| "findIndex P (x # xs) =
     (if P x then Some 0 else map_option Suc (findIndex P xs))"

subsection \<open>handleExecuteTrade\<close>

text \<open>
  \<open>tid\<close> is the identifier \<open>Math.random().toString(36).substr(2, 9)\<close> produces and
  \<open>now\<close> is \<open>Date.now()\<close>; both are inputs of the model. The function has no check of
  its arguments and no failure branch.
\<close>

definition handleExecuteTrade ::
  "string \<Rightarrow> int \<Rightarrow> string \<Rightarrow> TradeType \<Rightarrow> real \<Rightarrow> real \<Rightarrow> AppState \<Rightarrow> AppState" where
  "handleExecuteTrade tid now p ty amt pr st =
     (let newTrade =
        \<lparr>trade_id = tid, pair = p, type = ty, entryPrice = pr, exitPrice = None,
         amount = amt, status = OPEN, pnl = None, timestamp = now,
         stopLoss = Some (pr * (1 - defaultStopLoss (riskSettings st) / 100)),
         takeProfit = Some (pr * (1 + defaultTakeProfit (riskSettings st) / 100)),
         accountType = Some (mode st)\<rparr>
      in (if mode st = TRIAL
          then st\<lparr>trades := newTrade # trades st, trialBalance := trialBalance st - amt\<rparr>
          else st\<lparr>trades := newTrade # trades st, liveBalance := liveBalance st - amt\<rparr>))"

subsection \<open>handleCloseTrade\<close>

definition handleCloseTrade :: "string \<Rightarrow> AppState \<Rightarrow> AppState" where
  "handleCloseTrade tradeId st =
     (case findIndex (\<lambda>t. trade_id t = tradeId) (trades st) of
        None \<Rightarrow> st
      | Some tradeIndex \<Rightarrow>
          (let trade = trades st ! tradeIndex in
           if status trade = CLOSED then st
           else
             (let currentPrice = priceOr (marketPrices st) (pair trade) (entryPrice trade);
                  isLong = (type trade = BUY);
                  priceChange = ((currentPrice - entryPrice trade) / entryPrice trade) * 100;
                  pnlPercent = (if isLong then priceChange else - priceChange);
                  pnlValue = amount trade * (pnlPercent / 100);
                  st1 = (if accountType trade = Some LIVE
                         then st\<lparr>liveBalance := liveBalance st + amount trade + pnlValue\<rparr>
                         else st\<lparr>trialBalance := trialBalance st + amount trade + pnlValue\<rparr>)
              in st1\<lparr>dailyPnL := dailyPnL st + pnlValue,
                     consecutiveLosses :=
                       (if pnlValue < 0 then consecutiveLosses st + 1 else 0),
                     trades := (trades st)[tradeIndex :=
                       trade\<lparr>status := CLOSED, exitPrice := Some currentPrice,
                             pnl := Some pnlValue\<rparr>]\<rparr>)))"

subsection \<open>onUpdateRisk\<close>

definition onUpdateRisk :: "RiskSettings \<Rightarrow> AppState \<Rightarrow> AppState" where
  "onUpdateRisk newSettings st = st\<lparr>riskSettings := newSettings\<rparr>"

subsection \<open>The settlement interval (every 5000 ms)\<close>

text \<open>
  The callback of \<open>trades.map\<close>. It reads the quotes and the live \<open>riskSettings\<close> of
  the state, updates the two refs and queues the balance update; the boolean is
  \<open>hasUpdates\<close>.
\<close>

definition settleTrade :: "Trade \<Rightarrow> bool \<times> AppState \<Rightarrow> Trade \<times> bool \<times> AppState" where
  "settleTrade t acc =
     (let hasUpdates = fst acc; st = snd acc in
      if status t = OPEN then
        (let currentPrice = priceOr (marketPrices st) (pair t) (entryPrice t);
             priceChange = ((currentPrice - entryPrice t) / entryPrice t) * 100;
             isLong = (type t = BUY);
             pnlPercent = (if isLong then priceChange else - priceChange)
         in if pnlPercent \<le> - defaultStopLoss (riskSettings st)
               \<or> pnlPercent \<ge> defaultTakeProfit (riskSettings st)
            then
              (let pnlValue = amount t * (pnlPercent / 100);
                   st1 = st\<lparr>dailyPnL := dailyPnL st + pnlValue,
                            consecutiveLosses :=
                              (if pnlValue < 0 then consecutiveLosses st + 1 else 0)\<rparr>;
                   st2 = (if accountType t = Some LIVE
                          then st1\<lparr>liveBalance := liveBalance st1 + amount t + pnlValue\<rparr>
                          else st1\<lparr>trialBalance := trialBalance st1 + amount t + pnlValue\<rparr>)
               in (t\<lparr>status := CLOSED, pnl := Some pnlValue, exitPrice := Some currentPrice\<rparr>,
                   True, st2))
            else (t, hasUpdates, st))
      else (t, hasUpdates, st))"

text \<open>\<open>trades.map(callback)\<close>, left to right, with the effects of the callback threaded.\<close>

fun settleAll :: "Trade list \<Rightarrow> bool \<times> AppState \<Rightarrow> Trade list \<times> bool \<times> AppState" where
  "settleAll [] acc = ([], acc)"
| "settleAll (t # ts) acc =
     (let r = settleTrade t acc; rs = settleAll ts (snd r)
      in (fst r # fst rs, snd rs))"

text \<open>One tick of the interval: \<open>if (hasUpdates) setTrades(newTrades)\<close>.\<close>

definition settlementTick :: "AppState \<Rightarrow> AppState" where
  "settlementTick st =
     (let r = settleAll (trades st) (False, st);
          newTrades = fst r; hasUpdates = fst (snd r); st' = snd (snd r)
      in if hasUpdates then st'\<lparr>trades := newTrades\<rparr> else st')"

text \<open>The effect installs the interval only for a logged-in user.\<close>

definition settlementInterval :: "AppState \<Rightarrow> AppState" where
  "settlementInterval st = (if user st = None then st else settlementTick st)"

subsection \<open>The alert banner's reset button and the state setters\<close>

text \<open>\<open>onClick={() => { setSystemAlert(null); consecutiveLosses.current = 0; }}\<close>\<close>

definition resetSafety :: "AppState \<Rightarrow> AppState" where
  "resetSafety st = st\<lparr>systemAlert := None, consecutiveLosses := 0\<rparr>"

definition setMode :: "Mode \<Rightarrow> AppState \<Rightarrow> AppState" where
  "setMode m st = st\<lparr>mode := m\<rparr>"

definition setIsAutoPilot :: "bool \<Rightarrow> AppState \<Rightarrow> AppState" where
  "setIsAutoPilot b st = st\<lparr>isAutoPilot := b\<rparr>"

definition setMarketPrices :: "(string \<rightharpoonup> Quote) \<Rightarrow> AppState \<Rightarrow> AppState" where
  "setMarketPrices newPrices st = st\<lparr>marketPrices := newPrices\<rparr>"

subsection \<open>The autopilot interval (every 10000 ms)\<close>

text \<open>
  \<open>QuantEngine\<close> (\<open>./logic/quantEngine\<close>) is not among the sources: its two functions
  \<open>analyzeTrend\<close> and \<open>getSafePositionSize\<close> are parameters of the model, and
  \<open>Analysis\<close> is the object \<open>analyzeTrend\<close> returns, with the three fields the callers
  read.
\<close>

record Analysis =
  analysis_action :: InsightAction
  analysis_confidence :: real
  reason :: string

definition lossAlert :: string where
  "lossAlert = ''SAFETY TRIGGERED: Max consecutive losses (3) reached.''"

definition drawdownAlert :: string where
  "drawdownAlert = ''SAFETY TRIGGERED: Daily drawdown limit reached.''"

text \<open>
  The body of \<open>pairs.forEach\<close>. Trades, balance, mode, quotes and risk settings are read
  from the render the interval was installed in (\<open>snap\<close>); the updates queued by
  \<open>handleExecuteTrade\<close> are functional and accumulate in \<open>acc\<close>. Mode and risk settings
  do not change during a tick, so \<open>handleExecuteTrade\<close> on \<open>acc\<close> builds the trade the
  closure builds. \<open>newId p\<close> is the identifier drawn for the trade on pair \<open>p\<close>.
\<close>

definition autopilotPair ::
  "(real list \<Rightarrow> Analysis) \<Rightarrow> (real \<Rightarrow> real \<Rightarrow> real \<Rightarrow> real \<Rightarrow> real) \<Rightarrow>
   (string \<Rightarrow> string) \<Rightarrow> int \<Rightarrow> AppState \<Rightarrow> AppState \<Rightarrow> string \<Rightarrow> AppState" where
  "autopilotPair analyzeTrend getSafePositionSize newId now snap acc p =
     (case priceHistory snap p of
        None \<Rightarrow> acc
      | Some history \<Rightarrow>
          if length history < 50 then acc
          else
            (let analysis = analyzeTrend history;
                 currentPrice = priceOr (marketPrices snap) p 0;
                 hasOpenPosition =
                   list_ex (\<lambda>t. pair t = p \<and> status t = OPEN \<and> accountType t = Some (mode snap))
                     (trades snap)
             in if analysis_action analysis = ActBUY \<and> \<not> hasOpenPosition then
                  (let safeAmount =
                         getSafePositionSize (currentBalance snap) currentPrice
                           (aiRiskPercent (riskSettings snap) / 100)
                           (aiMaxPositionSize (riskSettings snap))
                   in if safeAmount > 10
                      then handleExecuteTrade (newId p) now p BUY safeAmount currentPrice acc
                      else acc)
                else acc))"

definition autopilotTick ::
  "(real list \<Rightarrow> Analysis) \<Rightarrow> (real \<Rightarrow> real \<Rightarrow> real \<Rightarrow> real \<Rightarrow> real) \<Rightarrow>
   (string \<Rightarrow> string) \<Rightarrow> int \<Rightarrow> AppState \<Rightarrow> AppState" where
  "autopilotTick analyzeTrend getSafePositionSize newId now st =
     (if consecutiveLosses st \<ge> 3
      then st\<lparr>isAutoPilot := False, systemAlert := Some lossAlert\<rparr>
      else
        (let drawdownPercent = (dailyPnL st / currentBalance st) * 100 in
         if drawdownPercent \<le> - maxDrawdown (riskSettings st)
         then st\<lparr>isAutoPilot := False, systemAlert := Some drawdownAlert\<rparr>
         else
           foldl (autopilotPair analyzeTrend getSafePositionSize newId now st) st
             [''BTC/USDT'', ''ETH/USDT'', ''SOL/USDT'']))"

text \<open>\<open>if (!isAutoPilot || !user) return;\<close>: no interval, no tick.\<close>

definition autopilotInterval ::
  "(real list \<Rightarrow> Analysis) \<Rightarrow> (real \<Rightarrow> real \<Rightarrow> real \<Rightarrow> real \<Rightarrow> real) \<Rightarrow>
   (string \<Rightarrow> string) \<Rightarrow> int \<Rightarrow> AppState \<Rightarrow> AppState" where
  "autopilotInterval analyzeTrend getSafePositionSize newId now st =
     (if \<not> isAutoPilot st \<or> user st = None then st
      else autopilotTick analyzeTrend getSafePositionSize newId now st)"

subsection \<open>Sequences of events\<close>

text \<open>
  The handlers and ticks above as the events of a session, run in order. Each event is
  applied to the state the previous one left, which is what React's serial event loop
  does with the handlers of one component.
\<close>

datatype Event =
    ExecuteTrade string int string TradeType real real
  | CloseTrade string
  | SettlementTick
  | UpdateRisk RiskSettings
  | SetMode Mode
  | SetIsAutoPilot bool
  | SetMarketPrices "string \<rightharpoonup> Quote"
  | ResetSafety

fun apply_event :: "Event \<Rightarrow> AppState \<Rightarrow> AppState" where
  "apply_event (ExecuteTrade tid now p ty amt pr) st = handleExecuteTrade tid now p ty amt pr st"
| "apply_event (CloseTrade tradeId) st = handleCloseTrade tradeId st"
| "apply_event SettlementTick st = settlementInterval st"
| "apply_event (UpdateRisk newSettings) st = onUpdateRisk newSettings st"
| "apply_event (SetMode m) st = setMode m st"
| "apply_event (SetIsAutoPilot b) st = setIsAutoPilot b st"
| "apply_event (SetMarketPrices newPrices) st = setMarketPrices newPrices st"
| "apply_event ResetSafety st = resetSafety st"

fun run :: "Event list \<Rightarrow> AppState \<Rightarrow> AppState" where
  "run [] st = st"
| "run (e # es) st = run es (apply_event e st)"

subsection \<open>Observations on the ledger\<close>

text \<open>
  The account a trade settles into: \<open>t.accountType === Mode.LIVE\<close> selects the live
  balance, anything else the trial balance.
\<close>

definition tradeMode :: "Trade \<Rightarrow> Mode" where
  "tradeMode t = (if accountType t = Some LIVE then LIVE else TRIAL)"

definition balanceOf :: "Mode \<Rightarrow> AppState \<Rightarrow> real" where
  "balanceOf m st = (if m = LIVE then liveBalance st else trialBalance st)"

text \<open>
  The profit formula of both settlement paths, stated once for the theorems:
  \<open>sign \<times> (e - p) / p \<times> 100\<close> with sign \<open>+1\<close> for BUY and \<open>-1\<close> for SELL.
\<close>

definition pnlPercentOf :: "TradeType \<Rightarrow> real \<Rightarrow> real \<Rightarrow> real" where
  "pnlPercentOf s p e = (if s = BUY then 1 else - 1) * ((e - p) / p * 100)"

definition pnlValueOf :: "Trade \<Rightarrow> real \<Rightarrow> real" where
  "pnlValueOf t e = amount t * pnlPercentOf (type t) (entryPrice t) e / 100"

section \<open>The advisory pipeline (src/constants.tsx)\<close>

subsection \<open>String helpers\<close>

text \<open>
  A \<open>string\<close> here is a list of 8-bit characters, so the model covers text in the
  Latin-1 range; JavaScript's strings are lists of UTF-16 code units.
\<close>

definition startsWith :: "string \<Rightarrow> string \<Rightarrow> bool" where
  "startsWith s sub = (take (length sub) s = sub)"

text \<open>\<open>String.prototype.includes (the name is reserved in Isabelle)\<close>\<close>

fun str_includes :: "string \<Rightarrow> string \<Rightarrow> bool" where
  "str_includes [] sub = (sub = [])"
| "str_includes (c # cs) sub = (startsWith (c # cs) sub \<or> str_includes cs sub)"

text \<open>\<open>indexOf\<close> and \<open>lastIndexOf\<close> of one character; \<open>None\<close> is \<open>-1\<close>.\<close>

definition indexOf :: "string \<Rightarrow> char \<Rightarrow> nat option" where
  "indexOf s c = findIndex (\<lambda>x. x = c) s"

definition lastIndexOf :: "string \<Rightarrow> char \<Rightarrow> nat option" where
  "lastIndexOf s c =
     (case findIndex (\<lambda>x. x = c) (rev s) of
        None \<Rightarrow> None
      | Some k \<Rightarrow> Some (length s - 1 - k))"

text \<open>\<open>text.substring(a, b)\<close> for \<open>a \<le> b\<close>, the only way the source calls it.\<close>

definition substring :: "string \<Rightarrow> nat \<Rightarrow> nat \<Rightarrow> string" where
  "substring s a b = take (b - a) (drop a s)"

text \<open>\<open>s.replace(/pat/g, '')\<close> for a literal, non-empty pattern.\<close>

function removeAll :: "string \<Rightarrow> string \<Rightarrow> string" where
  "removeAll pat [] = []"
| "removeAll pat (c # cs) =
     (if pat \<noteq> [] \<and> startsWith (c # cs) pat
      then removeAll pat (drop (length pat) (c # cs))
      else c # removeAll pat cs)"
  by pat_completeness auto
termination
  by (relation "measure (\<lambda>(pat, s). length s)") auto

text \<open>The white space \<open>trim\<close> removes, within the Latin-1 range.\<close>

definition isSpace :: "char \<Rightarrow> bool" where
  "isSpace c = ((of_char c :: nat) \<in> {9, 10, 11, 12, 13, 32, 160})"

definition trim :: "string \<Rightarrow> string" where
  "trim s = rev (dropWhile isSpace (rev (dropWhile isSpace s)))"

subsection \<open>sanitizeJSON\<close>

definition sanitizeJSON :: "string \<Rightarrow> string" where
  "sanitizeJSON txt =
     (if txt = [] then ''{}''
      else
        (let firstOpen = indexOf txt (CHR ''{'');
             lastClose = lastIndexOf txt (CHR ''}'')
         in case (firstOpen, lastClose) of
              (Some a, Some b) \<Rightarrow>
                if b > a then substring txt a (b + 1)
                else trim (removeAll ''```'' (removeAll ''```json'' txt))
            | _ \<Rightarrow> trim (removeAll ''```'' (removeAll ''```json'' txt))))"

subsection \<open>The race of the request against the clock\<close>

text \<open>
  What the external request does is an input of the model. Building the client or
  calling \<open>generateContent\<close> throws at once, or the call returns a promise; the promise
  resolves with a response after some milliseconds, rejects after some milliseconds, or
  never settles.
\<close>

record GenerateContentResponse =
  response_text :: "string option"

datatype AiPromise =
    Resolves nat GenerateContentResponse
  | Rejects nat
  | NeverSettles

datatype AiRequest =
    ThrowsAtOnce
  | Started AiPromise

datatype Error =
    ClientError
  | RequestError
  | AI_LATENCY_TIMEOUT
  | EmptyAIResponse
  | JSONSyntaxError

definition TIMEOUT_MS :: nat where
  "TIMEOUT_MS = 6500"

text \<open>
  \<open>Promise.race([aiRequest, timeoutPromise])\<close>: the promise that settles first decides,
  and the result is the time of settling with the outcome. The timer rejects at
  \<open>TIMEOUT_MS\<close>; a request settling at that very instant is taken to lose.
\<close>

definition race :: "AiPromise \<Rightarrow> nat \<times> (Error + GenerateContentResponse)" where
  "race aiRequest =
     (case aiRequest of
        Resolves t response \<Rightarrow>
          if t < TIMEOUT_MS then (t, Inr response) else (TIMEOUT_MS, Inl AI_LATENCY_TIMEOUT)
      | Rejects t \<Rightarrow>
          if t < TIMEOUT_MS then (t, Inl RequestError) else (TIMEOUT_MS, Inl AI_LATENCY_TIMEOUT)
      | NeverSettles \<Rightarrow> (TIMEOUT_MS, Inl AI_LATENCY_TIMEOUT))"

subsection \<open>generateMarketInsight\<close>

text \<open>
  The result on the external path is \<open>{ ...data, timestamp, source: 'AI_GEN' }\<close> for
  whatever value \<open>data\<close> the response parsed to; on the fallback path it is the object
  built from the local analysis.
\<close>

datatype 'j MarketInsight =
    External 'j int string
  | Fallback AIInsight

definition provenance :: "'j MarketInsight \<Rightarrow> string" where
  "provenance r = (case r of External d ts src \<Rightarrow> src | Fallback i \<Rightarrow> source i)"

text \<open>
  The \<open>try\<close> block. \<open>JSON.parse\<close> is a parameter, \<open>None\<close> when it throws. The block
  ends with the parsed data or with the error thrown, at the time the race settled.
\<close>

definition tryExternal :: "(string \<Rightarrow> 'j option) \<Rightarrow> AiRequest \<Rightarrow> nat \<times> (Error + 'j)" where
  "tryExternal parseJSON req =
     (case req of
        ThrowsAtOnce \<Rightarrow> (0, Inl ClientError)
      | Started aiRequest \<Rightarrow>
          (let r = race aiRequest in
           case snd r of
             Inl e \<Rightarrow> (fst r, Inl e)
           | Inr response \<Rightarrow>
               (case response_text response of
                  None \<Rightarrow> (fst r, Inl EmptyAIResponse)
                | Some txt \<Rightarrow>
                    if txt = [] then (fst r, Inl EmptyAIResponse)
                    else
                      (case parseJSON (sanitizeJSON txt) of
                         None \<Rightarrow> (fst r, Inl JSONSyntaxError)
                       | Some data \<Rightarrow> (fst r, Inr data)))))"

text \<open>
  The \<open>catch\<close> block. \<open>parseFloat\<close> is a parameter, \<open>None\<close> for NaN (every comparison
  with NaN is false); \<open>analyzeTrend\<close> is the missing \<open>QuantEngine.analyzeTrend\<close>.
\<close>

definition quantFallback ::
  "(string \<Rightarrow> real option) \<Rightarrow> (real list \<Rightarrow> Analysis) \<Rightarrow> int \<Rightarrow>
   string \<Rightarrow> real option \<Rightarrow> string option \<Rightarrow> real list option \<Rightarrow> AIInsight" where
  "quantFallback parseFloat analyzeTrend now p currentPrice change24h history =
     (let dflt = (if str_includes p ''BTC'' then 96500 else if str_includes p ''ETH'' then 2650 else 198);
          basePrice = (case currentPrice of
                         None \<Rightarrow> dflt
                       | Some c \<Rightarrow> if c = 0 then dflt else c);
          heuristic =
            (let changeVal =
                   parseFloat (remove1 (CHR ''%'')
                     (case change24h of
                        None \<Rightarrow> ''0''
                      | Some s \<Rightarrow> if s = [] then ''0'' else s))
             in \<lparr>analysis_action =
                    (case changeVal of
                       None \<Rightarrow> ActHOLD
                     | Some v \<Rightarrow> if v > 2 then ActBUY else if v < - 2 then ActSELL else ActHOLD),
                  analysis_confidence = 70,
                  reason = ''Momentum analysis via 24h price deviation.''\<rparr>);
          analysis = (case history of
                        None \<Rightarrow> heuristic
                      | Some h \<Rightarrow> if length h \<ge> 20 then analyzeTrend h else heuristic);
          volatility = (if str_includes p ''BTC'' then 0.02 else 0.04 :: real)
      in \<lparr>insight_pair = p,
          confidence = analysis_confidence analysis,
          action = analysis_action analysis,
          reasoning = ''[QUANT ENGINE] '' @ reason analysis @ '' (Latency Bypass Active)'',
          keyLevels =
            \<lparr>support = of_int \<lfloor>basePrice * (1 - volatility)\<rfloor>,
             resistance = of_int \<lfloor>basePrice * (1 + volatility)\<rfloor>\<rparr>,
          insight_timestamp = now,
          source = ''QUANT_ENGINE''\<rparr>)"

text \<open>
  The whole function: the time its promise settles, and how: \<open>Inr\<close> a value it
  fulfils with, \<open>Inl\<close> an error it would reject with. Local computation takes no time.
\<close>

definition generateMarketInsight ::
  "(string \<Rightarrow> 'j option) \<Rightarrow> (string \<Rightarrow> real option) \<Rightarrow> (real list \<Rightarrow> Analysis) \<Rightarrow>
   AiRequest \<Rightarrow> int \<Rightarrow> string \<Rightarrow> real option \<Rightarrow> string option \<Rightarrow> real list option \<Rightarrow>
   nat \<times> (Error + 'j MarketInsight)" where
  "generateMarketInsight parseJSON parseFloat analyzeTrend req now p currentPrice change24h history =
     (let r = tryExternal parseJSON req in
      case snd r of
        Inr data \<Rightarrow> (fst r, Inr (External data now ''AI_GEN''))
      | Inl error \<Rightarrow>
          (fst r, Inr (Fallback
             (quantFallback parseFloat analyzeTrend now p currentPrice change24h history))))"

text \<open>
  The inputs on which the \<open>try\<close> block throws: the request cannot be made, it rejects,
  it has not settled before the timeout, it resolves with no text or an empty text, or
  with a text that \<open>JSON.parse\<close> rejects after \<open>sanitizeJSON\<close>. The source has no other
  check of the response: a text that parses is not among them, whatever it parses to.
\<close>

definition externalFails :: "(string \<Rightarrow> 'j option) \<Rightarrow> AiRequest \<Rightarrow> bool" where
  "externalFails parseJSON req =
     (case req of
        ThrowsAtOnce \<Rightarrow> True
      | Started (Rejects t) \<Rightarrow> True
      | Started NeverSettles \<Rightarrow> True
      | Started (Resolves t response) \<Rightarrow>
          t \<ge> TIMEOUT_MS
          \<or> (case response_text response of
                None \<Rightarrow> True
              | Some txt \<Rightarrow> txt = [] \<or> parseJSON (sanitizeJSON txt) = None))"

subsection \<open>The insight as the caller receives it\<close>

text \<open>
  The values \<open>JSON.parse\<close> returns. An object is the list of its properties, each key
  once.
\<close>

datatype JSON =
    JNull
  | JBool bool
  | JNumber real
  | JString string
  | JArray "JSON list"
  | JObject "(string \<times> JSON) list"

text \<open>The decimal digits of an array index, as a property key.\<close>

fun showNat :: "nat \<Rightarrow> string" where
  "showNat n =
     (if n < 10 then [char_of (48 + n)]
      else showNat (n div 10) @ [char_of (48 + n mod 10)])"

text \<open>
  \<open>{ ...data }\<close>: the own enumerable properties of \<open>data\<close>. An object gives its
  properties, an array and a string their elements under their indices, and
  \<open>null\<close>, a boolean and a number give none.
\<close>

definition spread :: "JSON \<Rightarrow> (string \<times> JSON) list" where
  "spread d =
     (case d of
        JObject kvs \<Rightarrow> kvs
      | JArray xs \<Rightarrow> zip (map showNat [0..<length xs]) xs
      | JString s \<Rightarrow> zip (map showNat [0..<length s]) (map (\<lambda>c. JString [c]) s)
      | _ \<Rightarrow> [])"

text \<open>A property written after the spread replaces one of the same key.\<close>

definition setField :: "string \<Rightarrow> JSON \<Rightarrow> (string \<times> JSON) list \<Rightarrow> (string \<times> JSON) list" where
  "setField k v kvs = (k, v) # filter (\<lambda>kv. fst kv \<noteq> k) kvs"

definition actionName :: "InsightAction \<Rightarrow> string" where
  "actionName a = (case a of ActBUY \<Rightarrow> ''BUY'' | ActSELL \<Rightarrow> ''SELL'' | ActHOLD \<Rightarrow> ''HOLD'')"

text \<open>The object each \<open>return\<close> of \<open>generateMarketInsight\<close> builds.\<close>

definition toObject :: "JSON MarketInsight \<Rightarrow> (string \<times> JSON) list" where
  "toObject r =
     (case r of
        External d ts src \<Rightarrow>
          setField ''source'' (JString src)
            (setField ''timestamp'' (JNumber (of_int ts)) (spread d))
      | Fallback i \<Rightarrow>
          [(''pair'', JString (insight_pair i)),
           (''confidence'', JNumber (confidence i)),
           (''action'', JString (actionName (action i))),
           (''reasoning'', JString (reasoning i)),
           (''keyLevels'',
              JObject [(''support'', JNumber (support (keyLevels i))),
                       (''resistance'', JNumber (resistance (keyLevels i)))]),
           (''timestamp'', JNumber (of_int (insight_timestamp i))),
           (''source'', JString (source i))])"

text \<open>
  An object a caller can use as an insight: it has the fields the interface \<open>AIInsight\<close>
  requires, \<open>pair: string\<close>, \<open>confidence: number\<close>, \<open>action: 'BUY' | 'SELL' | 'HOLD'\<close> and
  \<open>reasoning: string\<close>.
\<close>

definition usableInsight :: "(string \<times> JSON) list \<Rightarrow> bool" where
  "usableInsight obj =
     ((case map_of obj ''pair'' of Some (JString s) \<Rightarrow> True | _ \<Rightarrow> False)
      \<and> (case map_of obj ''confidence'' of Some (JNumber x) \<Rightarrow> True | _ \<Rightarrow> False)
      \<and> (case map_of obj ''action'' of
            Some (JString a) \<Rightarrow> a = ''BUY'' \<or> a = ''SELL'' \<or> a = ''HOLD''
          | _ \<Rightarrow> False)
      \<and> (case map_of obj ''reasoning'' of Some (JString s) \<Rightarrow> True | _ \<Rightarrow> False))"

section \<open>Double-precision arithmetic\<close>





subsection \<open>The ledger handlers with the rounding of each operation written out\<close>






section \<open>Concrete states and inputs\<close>

text \<open>
  The state \<open>App\<close> starts in when the browser storage is empty: the initial values of its
  \<open>useState\<close> and \<open>useRef\<close> cells. The source seeds the price history with 60 points
  per pair on a sine wave over a rising line (\<open>Math.sin\<close>); the seed is a parameter here.
\<close>

definition initialState :: "(string \<rightharpoonup> real list) \<Rightarrow> AppState" where
  "initialState seed =
     \<lparr>user = None, mode = TRIAL, isAutoPilot = False,
      priceHistory = seed,
      consecutiveLosses = 0, dailyPnL = 0, systemAlert = None,
      trialBalance = 10000.00, liveBalance = 2450.75,
      marketPrices =
        [''BTC/USDT'' \<mapsto> \<lparr>price = 96450.00, change = ''+1.20%'', up = True\<rparr>,
         ''ETH/USDT'' \<mapsto> \<lparr>price = 2680.00, change = ''+0.45%'', up = True\<rparr>,
         ''SOL/USDT'' \<mapsto> \<lparr>price = 198.50, change = ''-0.15%'', up = False\<rparr>],
      riskSettings = DEFAULT_RISK, trades = []\<rparr>"

text \<open>The rising line of the seed, without the sine term: 60 points per pair.\<close>

definition risingSeed :: "string \<rightharpoonup> real list" where
  "risingSeed =
     [''BTC/USDT'' \<mapsto> map (\<lambda>i. 96000 + real i * 15) [0..<60],
      ''ETH/USDT'' \<mapsto> map (\<lambda>i. 2600 + real i * 3) [0..<60],
      ''SOL/USDT'' \<mapsto> map (\<lambda>i. 190 + real i * 0.8) [0..<60]]"

definition trader :: User where
  "trader = \<lparr>user_id = ''u1'', user_name = ''Trader'', email = ''trader@example.org'',
             role = TRADER, avatar = None\<rparr>"

definition loggedIn :: AppState where
  "loggedIn = (initialState risingSeed)\<lparr>user := Some trader\<rparr>"

text \<open>A quote table with one price for BTC/USDT.\<close>

definition btcAt :: "real \<Rightarrow> (string \<rightharpoonup> Quote)" where
  "btcAt x = [''BTC/USDT'' \<mapsto> \<lparr>price = x, change = ''0%'', up = True\<rparr>]"

text \<open>
  The scenario of the specification: a BUY of 1000 at 50000 under the default risk
  settings (stop-loss 2, take-profit 5), then the quote at \<open>x\<close>.
\<close>

definition buyThenQuote :: "real \<Rightarrow> AppState" where
  "buyThenQuote x =
     setMarketPrices (btcAt x)
       (handleExecuteTrade ''t1'' 0 ''BTC/USDT'' BUY 1000 50000 loggedIn)"

text \<open>Stand-ins for the two missing \<open>QuantEngine\<close> functions and for the built-ins.\<close>

definition alwaysBuy :: "real list \<Rightarrow> Analysis" where
  "alwaysBuy h = \<lparr>analysis_action = ActBUY, analysis_confidence = 90, reason = ''up''\<rparr>"

definition fixedSize :: "real \<Rightarrow> real \<Rightarrow> real \<Rightarrow> real \<Rightarrow> real" where
  "fixedSize balance pr riskFraction cap = min (balance * riskFraction) cap"

definition pairId :: "string \<Rightarrow> string" where
  "pairId p = ''auto-'' @ p"

definition parseFails :: "string \<Rightarrow> unit option" where
  "parseFails s = None"

definition parseAny :: "string \<Rightarrow> string option" where
  "parseAny s = Some s"

text \<open>\<open>parseFloat\<close> on the three strings the examples use, NaN elsewhere.\<close>

definition parseFloatTable :: "string \<Rightarrow> real option" where
  "parseFloatTable s =
     (if s = ''+0.50'' then Some 0.5
      else if s = ''+2.50'' then Some 2.5
      else if s = ''-3.10'' then Some (- 3.1)
      else None)"

text \<open>
  Autopilot on, three trades opened by hand, the quotes moved against each of them, and
  two of them (then the third) closed by hand at a loss.
\<close>

definition twoLosses :: AppState where
  "twoLosses =
     run [SetIsAutoPilot True,
          ExecuteTrade ''a1'' 0 ''BTC/USDT'' BUY 100 50000,
          ExecuteTrade ''a2'' 0 ''ETH/USDT'' BUY 100 2000,
          ExecuteTrade ''a3'' 0 ''SOL/USDT'' SELL 100 200,
          SetMarketPrices
            [''BTC/USDT'' \<mapsto> \<lparr>price = 49000, change = ''-2.00%'', up = False\<rparr>,
             ''ETH/USDT'' \<mapsto> \<lparr>price = 1980, change = ''-1.00%'', up = False\<rparr>,
             ''SOL/USDT'' \<mapsto> \<lparr>price = 202, change = ''+1.00%'', up = True\<rparr>],
          CloseTrade ''a1'', CloseTrade ''a2''] loggedIn"

definition threeLosses :: AppState where
  "threeLosses = run [CloseTrade ''a3''] twoLosses"

text \<open>A cumulative PnL of minus 16 percent of the trial balance of 10000.\<close>

definition deepDrawdown :: AppState where
  "deepDrawdown = loggedIn\<lparr>isAutoPilot := True, dailyPnL := - 1600\<rparr>"




text \<open>\<open>JSON.parse\<close> on the one text the example below uses.\<close>

definition parseEmptyObject :: "string \<Rightarrow> JSON option" where
  "parseEmptyObject s = (if s = ''{}'' then Some (JObject []) else None)"

section \<open>Auxiliary facts\<close>

lemma findIndex_Some:
  "findIndex P xs = Some i \<Longrightarrow> i < length xs \<and> P (xs ! i) \<and> find P xs = Some (xs ! i)"
  by (induction xs arbitrary: i) (auto split: if_splits)

lemma findIndex_find:
  "findIndex P xs = Some i \<Longrightarrow> find P xs = Some (xs ! i)"
  by (simp add: findIndex_Some)

lemma close_noop_found:
  "(case find (\<lambda>t. trade_id t = tradeId) (trades st) of
      None \<Rightarrow> True | Some t \<Rightarrow> status t = CLOSED)
   \<Longrightarrow> handleCloseTrade tradeId st = st"
  by (auto simp: handleCloseTrade_def Let_def dest: findIndex_find split: option.splits)

lemma settleTrade_closed: "status t = CLOSED \<Longrightarrow> settleTrade t acc = (t, acc)"
  by (simp add: settleTrade_def Let_def)

lemmas demo_defs =
  buyThenQuote_def setMarketPrices_def handleExecuteTrade_def loggedIn_def
  initialState_def DEFAULT_RISK_def Let_def settleTrade_def priceOr_def btcAt_def
  settlementTick_def onUpdateRisk_def

lemma settled_trades:
  "trades (settlementTick (buyThenQuote 49000)) =
   [\<lparr>trade_id = ''t1'', pair = ''BTC/USDT'', type = BUY, entryPrice = 50000,
     exitPrice = Some 49000, amount = 1000, status = CLOSED, pnl = Some (- 20),
     timestamp = 0, stopLoss = Some 49000, takeProfit = Some 52500,
     accountType = Some TRIAL\<rparr>]"
  by (simp add: demo_defs)

lemma sign_mult: "(if c then x else - x) = (if c then 1 else - 1) * (x::real)"
  by simp

lemma pnlPercent_eq:
  "(if type t = BUY then (e - entryPrice t) / entryPrice t * 100
    else - ((e - entryPrice t) / entryPrice t * 100))
   = pnlPercentOf (type t) (entryPrice t) e"
  unfolding pnlPercentOf_def by (rule sign_mult)

lemma pnlValue_eq:
  "amount t * ((if type t = BUY then (e - entryPrice t) / entryPrice t * 100
                else - ((e - entryPrice t) / entryPrice t * 100)) / 100)
   = pnlValueOf t e"
  unfolding pnlValueOf_def by (simp only: pnlPercent_eq times_divide_eq_right)

lemma close_open_trade:
  assumes "findIndex (\<lambda>t. trade_id t = tradeId) (trades st) = Some i"
    and "status (trades st ! i) = OPEN"
  shows "handleCloseTrade tradeId st =
     (let t = trades st ! i;
          e = priceOr (marketPrices st) (pair t) (entryPrice t);
          v = pnlValueOf t e;
          st1 = (if accountType t = Some LIVE
                 then st\<lparr>liveBalance := liveBalance st + amount t + v\<rparr>
                 else st\<lparr>trialBalance := trialBalance st + amount t + v\<rparr>)
      in st1\<lparr>dailyPnL := dailyPnL st + v,
             consecutiveLosses := (if v < 0 then consecutiveLosses st + 1 else 0),
             trades := (trades st)[i := t\<lparr>status := CLOSED, exitPrice := Some e, pnl := Some v\<rparr>]\<rparr>)"
  using assms unfolding handleCloseTrade_def Let_def pnlValue_eq by simp

lemma settle_open_trade:
  assumes "status t = OPEN"
  shows "settleTrade t (hu, st) =
     (let e = priceOr (marketPrices st) (pair t) (entryPrice t);
          pp = pnlPercentOf (type t) (entryPrice t) e;
          v = pnlValueOf t e
      in if pp \<le> - defaultStopLoss (riskSettings st) \<or> pp \<ge> defaultTakeProfit (riskSettings st)
         then (t\<lparr>status := CLOSED, pnl := Some v, exitPrice := Some e\<rparr>, True,
               (if accountType t = Some LIVE
                then st\<lparr>dailyPnL := dailyPnL st + v,
                        consecutiveLosses := (if v < 0 then consecutiveLosses st + 1 else 0),
                        liveBalance := liveBalance st + amount t + v\<rparr>
                else st\<lparr>dailyPnL := dailyPnL st + v,
                        consecutiveLosses := (if v < 0 then consecutiveLosses st + 1 else 0),
                        trialBalance := trialBalance st + amount t + v\<rparr>))
         else (t, hu, st))"
  using assms unfolding settleTrade_def Let_def pnlPercent_eq by (simp add: pnlValueOf_def)

lemma buyThenQuote_trades:
  "trades (buyThenQuote x) =
   [\<lparr>trade_id = ''t1'', pair = ''BTC/USDT'', type = BUY, entryPrice = 50000, exitPrice = None,
     amount = 1000, status = OPEN, pnl = None, timestamp = 0,
     stopLoss = Some 49000, takeProfit = Some 52500, accountType = Some TRIAL\<rparr>]"
  by (simp add: demo_defs)

lemma autopilotPair_flags:
  "isAutoPilot (autopilotPair A S ids now snap acc p) = isAutoPilot acc
   \<and> systemAlert (autopilotPair A S ids now snap acc p) = systemAlert acc"
  by (simp add: autopilotPair_def handleExecuteTrade_def Let_def split: option.splits)

lemma autopilot_foldl_flags:
  "isAutoPilot (foldl (autopilotPair A S ids now snap) acc ps) = isAutoPilot acc
   \<and> systemAlert (foldl (autopilotPair A S ids now snap) acc ps) = systemAlert acc"
  by (induction ps arbitrary: acc) (simp_all add: autopilotPair_flags)

lemma alerts_differ: "lossAlert \<noteq> drawdownAlert"
  by (simp add: lossAlert_def drawdownAlert_def)

lemma two_facts:
  "consecutiveLosses twoLosses = 2 \<and> isAutoPilot twoLosses \<and> systemAlert twoLosses = None
   \<and> dailyPnL twoLosses = - 3 \<and> currentBalance twoLosses = 9897
   \<and> maxDrawdown (riskSettings twoLosses) = 15"
  by code_simp

lemma three_facts:
  "consecutiveLosses threeLosses = 3 \<and> isAutoPilot threeLosses \<and> length (trades threeLosses) = 3"
  by code_simp

lemma deep_facts:
  "consecutiveLosses deepDrawdown = 0 \<and> currentBalance deepDrawdown = 10000
   \<and> dailyPnL deepDrawdown = - 1600 \<and> maxDrawdown (riskSettings deepDrawdown) = 15
   \<and> trades deepDrawdown = []"
  by (simp add: deepDrawdown_def loggedIn_def initialState_def currentBalance_def DEFAULT_RISK_def)

lemma race_time: "fst (race aiRequest) \<le> TIMEOUT_MS"
  by (cases aiRequest) (simp_all add: race_def TIMEOUT_MS_def)

lemma tryExternal_time: "fst (tryExternal pj req) \<le> TIMEOUT_MS"
proof (cases req)
  case ThrowsAtOnce
  then show ?thesis by (simp add: tryExternal_def)
next
  case (Started aiRequest)
  then have "fst (tryExternal pj req) = fst (race aiRequest)"
    by (simp add: tryExternal_def Let_def split: sum.splits option.splits)
  then show ?thesis by (simp add: race_time)
qed

lemma tryExternal_fails:
  "externalFails pj req \<longleftrightarrow> (\<exists>e. snd (tryExternal pj req) = Inl e)"
proof (cases req)
  case ThrowsAtOnce
  then show ?thesis by (simp add: externalFails_def tryExternal_def)
next
  case (Started aiRequest)
  then show ?thesis
    by (cases aiRequest)
       (auto simp: externalFails_def tryExternal_def race_def Let_def
          split: option.splits sum.splits)
qed

lemma generate_time:
  "fst (generateMarketInsight pj pf A req now p cp ch h) \<le> TIMEOUT_MS"
proof -
  have "fst (generateMarketInsight pj pf A req now p cp ch h) = fst (tryExternal pj req)"
    by (simp add: generateMarketInsight_def Let_def split: sum.splits)
  then show ?thesis by (simp add: tryExternal_time)
qed

lemma generate_fails:
  "externalFails pj req \<Longrightarrow>
   snd (generateMarketInsight pj pf A req now p cp ch h)
     = Inr (Fallback (quantFallback pf A now p cp ch h))"
  by (auto simp: tryExternal_fails generateMarketInsight_def Let_def)

lemma fallback_source: "source (quantFallback pf A now p cp ch h) = ''QUANT_ENGINE''"
  by (simp add: quantFallback_def Let_def)














lemma map_of_setField:
  "k' \<noteq> k \<Longrightarrow> map_of (setField k v obj) k' = map_of obj k'"
  by (induction obj) (auto simp: setField_def)

lemma usable_external:
  "usableInsight (toObject (External d ts src)) = usableInsight (spread d)"
  by (simp add: toObject_def usableInsight_def map_of_setField)

lemma usable_fallback: "usableInsight (toObject (Fallback i))"
  by (cases "action i") (simp_all add: toObject_def usableInsight_def actionName_def)

lemma quantFallback_explicit:
  "quantFallback pf A now p cp ch h =
   (let changeVal = pf (remove1 (CHR ''%'')
                      (case ch of None \<Rightarrow> ''0'' | Some s \<Rightarrow> if s = [] then ''0'' else s));
        heuristic =
          \<lparr>analysis_action =
             (case changeVal of
                None \<Rightarrow> ActHOLD
              | Some x \<Rightarrow> if x > 2 then ActBUY else if x < - 2 then ActSELL else ActHOLD),
           analysis_confidence = 70,
           reason = ''Momentum analysis via 24h price deviation.''\<rparr>;
        an = (case h of
                None \<Rightarrow> heuristic
              | Some xs \<Rightarrow> if length xs \<ge> 20 then A xs else heuristic);
        v = (if str_includes p ''BTC'' then 0.02 else 0.04 :: real);
        dflt = (if str_includes p ''BTC'' then 96500
                else if str_includes p ''ETH'' then 2650 else 198 :: real);
        basePrice = (case cp of None \<Rightarrow> dflt | Some c \<Rightarrow> if c = 0 then dflt else c)
    in \<lparr>insight_pair = p,
                 confidence = analysis_confidence an,
                 action = analysis_action an,
                 reasoning = ''[QUANT ENGINE] '' @ reason an @ '' (Latency Bypass Active)'',
                 keyLevels =
                   \<lparr>support = of_int \<lfloor>basePrice * (1 - v)\<rfloor>,
                    resistance = of_int \<lfloor>basePrice * (1 + v)\<rfloor>\<rparr>,
                 insight_timestamp = now,
                 source = ''QUANT_ENGINE''\<rparr>)"
  by (simp add: quantFallback_def Let_def)

lemma generate_timeout:
  "req = Started NeverSettles \<or> (\<exists>t. req = Started (Rejects t) \<and> t \<ge> TIMEOUT_MS)
     \<or> (\<exists>t r. req = Started (Resolves t r) \<and> t \<ge> TIMEOUT_MS) \<Longrightarrow>
   generateMarketInsight pj pf A req now p cp ch h
     = (TIMEOUT_MS, Inr (Fallback (quantFallback pf A now p cp ch h)))"
  by (auto simp: generateMarketInsight_def tryExternal_def race_def Let_def)

lemma generate_passthrough:
  assumes "\<not> externalFails pj req"
  shows "\<exists>t r txt d. req = Started (Resolves t r) \<and> t < TIMEOUT_MS
      \<and> response_text r = Some txt \<and> txt \<noteq> []
      \<and> pj (sanitizeJSON txt) = Some d
      \<and> generateMarketInsight pj pf A req now p cp ch h = (t, Inr (External d now ''AI_GEN''))"
proof (cases req)
  case ThrowsAtOnce
  with assms show ?thesis by (simp add: externalFails_def)
next
  case (Started aiRequest)
  with assms show ?thesis
    by (cases aiRequest)
       (auto simp: externalFails_def generateMarketInsight_def tryExternal_def race_def Let_def
          split: option.splits)
qed

section \<open>The trade ledger\<close>

text \<open>
  C4. Closing by hand a trade whose identifier is unknown, or whose identifier finds a
  trade that is already CLOSED, returns the state as it was: the trade list, both
  balances, \<open>consecutiveLosses\<close> and \<open>dailyPnL\<close> (the cumulative PnL) are untouched. The
  settlement sweep likewise passes over a CLOSED trade without any effect.
  \<open>find\<close> is the first trade with the identifier, the one \<open>findIndex\<close> selects.
\<close>

theorem manualClose_noop:
  "((case find (\<lambda>t. trade_id t = tradeId) (trades st) of
       None \<Rightarrow> True | Some t \<Rightarrow> status t = CLOSED)
     \<longrightarrow> handleCloseTrade tradeId st = st)
   \<and> (status t = CLOSED \<longrightarrow> settleTrade t acc = (t, acc))"
  using close_noop_found settleTrade_closed by blast

theorem manualClose_noop_witness:
  "handleCloseTrade ''t1'' (settlementTick (buyThenQuote 49000))
     = settlementTick (buyThenQuote 49000)
   \<and> handleCloseTrade ''t9'' (settlementTick (buyThenQuote 49000))
     = settlementTick (buyThenQuote 49000)
   \<and> settleTrade (hd (trades (settlementTick (buyThenQuote 49000)))) (False, loggedIn)
     = (hd (trades (settlementTick (buyThenQuote 49000))), False, loggedIn)"
  using manualClose_noop [of "''t1''" "settlementTick (buyThenQuote 49000)"
      "hd (trades (settlementTick (buyThenQuote 49000)))" "(False, loggedIn)"]
    manualClose_noop [of "''t9''" "settlementTick (buyThenQuote 49000)"]
  by (simp add: settled_trades)

text \<open>
  C7 as stated (an open with a non-positive amount creates no trade and debits nothing)
  fails: \<open>handleExecuteTrade\<close> has no check of the amount. With amount \<open>-100\<close> a trade is
  added and the trial balance rises from 10000 to 10100.
\<close>

theorem open_nonpositive_counterexample:
  "trades (handleExecuteTrade ''t2'' 0 ''BTC/USDT'' BUY (- 100) 96450 loggedIn)
     \<noteq> trades loggedIn
   \<and> trialBalance loggedIn = 10000
   \<and> trialBalance (handleExecuteTrade ''t2'' 0 ''BTC/USDT'' BUY (- 100) 96450 loggedIn) = 10100"
  by (simp add: demo_defs)

text \<open>
  C7, amended. For every amount, positive or not, \<open>handleExecuteTrade\<close> puts a new OPEN
  trade with that amount at the head of the trade list and subtracts the amount from
  the balance of the current mode; the balance of the other mode is unchanged.
\<close>

theorem open_any_amount:
  "trades (handleExecuteTrade tid now p ty amt pr st) =
     \<lparr>trade_id = tid, pair = p, type = ty, entryPrice = pr, exitPrice = None,
      amount = amt, status = OPEN, pnl = None, timestamp = now,
      stopLoss = Some (pr * (1 - defaultStopLoss (riskSettings st) / 100)),
      takeProfit = Some (pr * (1 + defaultTakeProfit (riskSettings st) / 100)),
      accountType = Some (mode st)\<rparr> # trades st
   \<and> currentBalance (handleExecuteTrade tid now p ty amt pr st) = currentBalance st - amt
   \<and> (if mode st = TRIAL
      then liveBalance (handleExecuteTrade tid now p ty amt pr st) = liveBalance st
      else trialBalance (handleExecuteTrade tid now p ty amt pr st) = trialBalance st)"
  by (simp add: handleExecuteTrade_def Let_def currentBalance_def)

text \<open>
  C10. Whatever the side, the trade \<open>handleExecuteTrade\<close> creates stores the stop-loss
  price \<open>entryPrice \<times> (1 - stopLossPct / 100)\<close> and the take-profit price
  \<open>entryPrice \<times> (1 + takeProfitPct / 100)\<close>: the long-side formulas. So for a SELL at a
  positive price under positive percentages the stored stop-loss lies below the entry
  price and the stored take-profit above it.
\<close>

theorem open_levels_long_side:
  "stopLoss (hd (trades (handleExecuteTrade tid now p ty amt pr st)))
     = Some (pr * (1 - defaultStopLoss (riskSettings st) / 100))
   \<and> takeProfit (hd (trades (handleExecuteTrade tid now p ty amt pr st)))
     = Some (pr * (1 + defaultTakeProfit (riskSettings st) / 100))
   \<and> entryPrice (hd (trades (handleExecuteTrade tid now p ty amt pr st))) = pr
   \<and> type (hd (trades (handleExecuteTrade tid now p ty amt pr st))) = ty
   \<and> (0 < pr \<and> 0 < defaultStopLoss (riskSettings st) \<and> 0 < defaultTakeProfit (riskSettings st)
      \<longrightarrow> the (stopLoss (hd (trades (handleExecuteTrade tid now p SELL amt pr st)))) < pr
        \<and> pr < the (takeProfit (hd (trades (handleExecuteTrade tid now p SELL amt pr st)))))"
proof -
  have "pr * (1 - s / 100) < pr" if "0 < pr" "0 < s" for s :: real
  proof -
    have "pr * (s / 100) > 0" using that by simp
    then show ?thesis by (simp add: algebra_simps)
  qed
  moreover have "pr < pr * (1 + s / 100)" if "0 < pr" "0 < s" for s :: real
  proof -
    have "pr * (s / 100) > 0" using that by simp
    then show ?thesis by (simp add: algebra_simps)
  qed
  ultimately show ?thesis
    by (simp add: handleExecuteTrade_def Let_def)
qed

theorem open_levels_long_side_witness:
  "stopLoss (hd (trades (handleExecuteTrade ''t3'' 0 ''BTC/USDT'' SELL 1000 50000 loggedIn)))
     = Some 49000
   \<and> takeProfit (hd (trades (handleExecuteTrade ''t3'' 0 ''BTC/USDT'' SELL 1000 50000 loggedIn)))
     = Some 52500
   \<and> type (hd (trades (handleExecuteTrade ''t3'' 0 ''BTC/USDT'' SELL 1000 50000 loggedIn))) = SELL
   \<and> the (stopLoss (hd (trades (handleExecuteTrade ''t3'' 0 ''BTC/USDT'' SELL 1000 50000 loggedIn))))
       < 50000
   \<and> 50000 < the (takeProfit (hd (trades (handleExecuteTrade ''t3'' 0 ''BTC/USDT'' SELL 1000 50000 loggedIn))))"
  using open_levels_long_side [of "''t3''" 0 "''BTC/USDT''" SELL 1000 50000 loggedIn]
  by (simp add: loggedIn_def initialState_def DEFAULT_RISK_def)

text \<open>
  C3. Settling an OPEN trade with entry price \<open>p \<noteq> 0\<close>, exit price \<open>e\<close>, notional \<open>a\<close>
  and side \<open>s\<close> records \<open>pnl = a \<times> pnlPercent / 100\<close> with
  \<open>pnlPercent = sign(s) \<times> (e - p) / p \<times> 100\<close> (\<open>pnlValueOf\<close>, \<open>pnlPercentOf\<close>), records
  the exit price, sets the status to CLOSED and credits \<open>a + pnl\<close> to the balance of the
  trade's account and nothing to the other. This holds for a close by hand
  (\<open>handleCloseTrade\<close>) and for the sweep's callback when a threshold is reached
  (\<open>settleTrade\<close>). In the scenario of the specification, a BUY of 1000 at 50000 swept at
  the quote 49000 closes with pnl \<open>-20\<close> and the balance, 9000 after the open, is
  credited 980.
\<close>

theorem settle_formulas:
  "(findIndex (\<lambda>t. trade_id t = tradeId) (trades st) = Some i
      \<and> status (trades st ! i) = OPEN \<and> entryPrice (trades st ! i) \<noteq> 0
    \<longrightarrow> (let t = trades st ! i;
             e = priceOr (marketPrices st) (pair t) (entryPrice t);
             v = pnlValueOf t e;
             st' = handleCloseTrade tradeId st
         in trades st' = (trades st)[i := t\<lparr>status := CLOSED, exitPrice := Some e, pnl := Some v\<rparr>]
            \<and> balanceOf m st' = balanceOf m st + (if m = tradeMode t then amount t + v else 0)))
   \<and> (status t = OPEN \<and> entryPrice t \<noteq> 0
      \<and> (pnlPercentOf (type t) (entryPrice t) (priceOr (marketPrices st) (pair t) (entryPrice t))
            \<le> - defaultStopLoss (riskSettings st)
          \<or> pnlPercentOf (type t) (entryPrice t) (priceOr (marketPrices st) (pair t) (entryPrice t))
            \<ge> defaultTakeProfit (riskSettings st))
    \<longrightarrow> (let e = priceOr (marketPrices st) (pair t) (entryPrice t);
             v = pnlValueOf t e;
             r = settleTrade t (hu, st)
         in fst r = t\<lparr>status := CLOSED, pnl := Some v, exitPrice := Some e\<rparr>
            \<and> balanceOf m (snd (snd r))
                = balanceOf m st + (if m = tradeMode t then amount t + v else 0)))
   \<and> pnlPercentOf BUY 50000 49000 = - 2
   \<and> trialBalance (buyThenQuote 49000) = 9000
   \<and> trialBalance (settlementTick (buyThenQuote 49000)) = 9000 + 980
   \<and> trades (settlementTick (buyThenQuote 49000)) =
       [\<lparr>trade_id = ''t1'', pair = ''BTC/USDT'', type = BUY, entryPrice = 50000,
         exitPrice = Some 49000, amount = 1000, status = CLOSED, pnl = Some (- 20),
         timestamp = 0, stopLoss = Some 49000, takeProfit = Some 52500,
         accountType = Some TRIAL\<rparr>]"
proof -
  have a: "findIndex (\<lambda>t. trade_id t = tradeId) (trades st) = Some i
      \<and> status (trades st ! i) = OPEN \<and> entryPrice (trades st ! i) \<noteq> 0
    \<longrightarrow> (let t = trades st ! i;
             e = priceOr (marketPrices st) (pair t) (entryPrice t);
             v = pnlValueOf t e;
             st' = handleCloseTrade tradeId st
         in trades st' = (trades st)[i := t\<lparr>status := CLOSED, exitPrice := Some e, pnl := Some v\<rparr>]
            \<and> balanceOf m st' = balanceOf m st + (if m = tradeMode t then amount t + v else 0))"
    by (cases m) (auto simp: close_open_trade Let_def balanceOf_def tradeMode_def)
  have b: "status t = OPEN \<and> entryPrice t \<noteq> 0
      \<and> (pnlPercentOf (type t) (entryPrice t) (priceOr (marketPrices st) (pair t) (entryPrice t))
            \<le> - defaultStopLoss (riskSettings st)
          \<or> pnlPercentOf (type t) (entryPrice t) (priceOr (marketPrices st) (pair t) (entryPrice t))
            \<ge> defaultTakeProfit (riskSettings st))
    \<longrightarrow> (let e = priceOr (marketPrices st) (pair t) (entryPrice t);
             v = pnlValueOf t e;
             r = settleTrade t (hu, st)
         in fst r = t\<lparr>status := CLOSED, pnl := Some v, exitPrice := Some e\<rparr>
            \<and> balanceOf m (snd (snd r))
                = balanceOf m st + (if m = tradeMode t then amount t + v else 0))"
    by (cases m) (auto simp: settle_open_trade Let_def balanceOf_def tradeMode_def)
  have c: "pnlPercentOf BUY 50000 49000 = - 2"
    by (simp add: pnlPercentOf_def)
  have d: "trialBalance (buyThenQuote 49000) = 9000"
    by (simp add: demo_defs)
  have e: "trialBalance (settlementTick (buyThenQuote 49000)) = 9000 + 980"
    by (simp add: demo_defs)
  from a b c d e settled_trades show ?thesis by blast
qed

theorem settle_formulas_witness:
  "findIndex (\<lambda>t. trade_id t = ''t1'') (trades (buyThenQuote 49000)) = Some 0
   \<and> status (trades (buyThenQuote 49000) ! 0) = OPEN
   \<and> entryPrice (trades (buyThenQuote 49000) ! 0) \<noteq> 0
   \<and> trades (handleCloseTrade ''t1'' (buyThenQuote 49000)) =
       [\<lparr>trade_id = ''t1'', pair = ''BTC/USDT'', type = BUY, entryPrice = 50000,
         exitPrice = Some 49000, amount = 1000, status = CLOSED, pnl = Some (- 20),
         timestamp = 0, stopLoss = Some 49000, takeProfit = Some 52500,
         accountType = Some TRIAL\<rparr>]
   \<and> balanceOf TRIAL (handleCloseTrade ''t1'' (buyThenQuote 49000)) = 9000 + 980
   \<and> fst (settleTrade (trades (buyThenQuote 49000) ! 0) (False, buyThenQuote 49000)) =
       \<lparr>trade_id = ''t1'', pair = ''BTC/USDT'', type = BUY, entryPrice = 50000,
         exitPrice = Some 49000, amount = 1000, status = CLOSED, pnl = Some (- 20),
         timestamp = 0, stopLoss = Some 49000, takeProfit = Some 52500,
         accountType = Some TRIAL\<rparr>"
proof -
  have mp: "priceOr (marketPrices (buyThenQuote 49000)) ''BTC/USDT'' 50000 = 49000"
    by (simp add: demo_defs)
  have rs: "defaultStopLoss (riskSettings (buyThenQuote 49000)) = 2"
    by (simp add: demo_defs)
  have bal: "balanceOf TRIAL (buyThenQuote 49000) = 9000"
    by (simp add: demo_defs balanceOf_def)
  show ?thesis
    using settle_formulas [of "''t1''" "buyThenQuote 49000" 0 TRIAL
        "trades (buyThenQuote 49000) ! 0" False]
    by (simp add: buyThenQuote_trades mp rs bal Let_def pnlValueOf_def pnlPercentOf_def
        tradeMode_def)
qed




section \<open>The settlement sweep and the risk settings\<close>

text \<open>
  C1 as stated (the sweep settles an OPEN trade at the thresholds snapshotted when it
  was opened, whatever the risk settings become later) fails. A BUY at 50000 opened
  under stop-loss 2 stores the stop-loss price 49000; at the quote 49250 the sweep
  leaves it OPEN, but after \<open>onUpdateRisk\<close> lowers the stop-loss percentage to 1 the
  sweep closes it at the same quote.
\<close>

theorem live_thresholds_counterexample:
  "stopLoss (hd (trades (buyThenQuote 49250))) = Some 49000
   \<and> takeProfit (hd (trades (buyThenQuote 49250))) = Some 52500
   \<and> status (hd (trades (settlementTick (buyThenQuote 49250)))) = OPEN
   \<and> status (hd (trades (settlementTick
        (onUpdateRisk (DEFAULT_RISK\<lparr>defaultStopLoss := 1\<rparr>) (buyThenQuote 49250))))) = CLOSED"
  by (simp add: demo_defs)

text \<open>
  C1, amended. The sweep settles an OPEN trade (entry price not zero) exactly when its
  \<open>pnlPercent\<close> is at most minus the stop-loss percentage, or at least the take-profit
  percentage, of the risk settings in force when the sweep runs, so after
  \<open>onUpdateRisk cfg\<close> those of \<open>cfg\<close>. The stop-loss and take-profit prices stored on
  the trade at open are not read by the sweep, and neither the sweep nor
  \<open>onUpdateRisk\<close> changes them.
\<close>

theorem sweep_uses_live_thresholds:
  "status t = OPEN \<and> entryPrice t \<noteq> 0 \<longrightarrow>
     (status (fst (settleTrade t (hu, onUpdateRisk cfg st))) = CLOSED)
       = (pnlPercentOf (type t) (entryPrice t) (priceOr (marketPrices st) (pair t) (entryPrice t))
            \<le> - defaultStopLoss cfg
          \<or> pnlPercentOf (type t) (entryPrice t) (priceOr (marketPrices st) (pair t) (entryPrice t))
            \<ge> defaultTakeProfit cfg)
     \<and> stopLoss (fst (settleTrade t (hu, onUpdateRisk cfg st))) = stopLoss t
     \<and> takeProfit (fst (settleTrade t (hu, onUpdateRisk cfg st))) = takeProfit t
     \<and> trades (onUpdateRisk cfg st) = trades st"
  by (auto simp: settle_open_trade Let_def onUpdateRisk_def)

theorem sweep_uses_live_thresholds_witness:
  "status (hd (trades (buyThenQuote 49250))) = OPEN
   \<and> entryPrice (hd (trades (buyThenQuote 49250))) \<noteq> 0
   \<and> status (fst (settleTrade (hd (trades (buyThenQuote 49250)))
        (False, onUpdateRisk (DEFAULT_RISK\<lparr>defaultStopLoss := 1\<rparr>) (buyThenQuote 49250)))) = CLOSED
   \<and> stopLoss (fst (settleTrade (hd (trades (buyThenQuote 49250)))
        (False, onUpdateRisk (DEFAULT_RISK\<lparr>defaultStopLoss := 1\<rparr>) (buyThenQuote 49250)))) = Some 49000"
proof -
  have mp: "priceOr (marketPrices (buyThenQuote 49250)) ''BTC/USDT'' 50000 = 49250"
    by (simp add: demo_defs)
  show ?thesis
    using sweep_uses_live_thresholds [of "hd (trades (buyThenQuote 49250))" False
        "DEFAULT_RISK\<lparr>defaultStopLoss := 1\<rparr>" "buyThenQuote 49250"]
    by (simp add: buyThenQuote_trades mp pnlPercentOf_def DEFAULT_RISK_def)
qed

section \<open>The risk gate of the autopilot\<close>

text \<open>
  C5. On every autopilot tick the gate on consecutive losses is the first thing that
  runs. When \<open>consecutiveLosses\<close> is 3 or more the tick does nothing but switch the
  autopilot off and raise the consecutive-loss alert, whatever \<open>analyzeTrend\<close> would
  say (no trade is opened), and with the autopilot off no further tick runs. When
  \<open>consecutiveLosses\<close> is below 3 the tick never raises that alert: the alert is left
  as it was or becomes the drawdown alert, and when the drawdown gate does not fire
  either (current balance not zero), the autopilot stays as it was.
\<close>

theorem loss_gate:
  "(consecutiveLosses st \<ge> 3 \<longrightarrow>
      autopilotTick A S ids now st = st\<lparr>isAutoPilot := False, systemAlert := Some lossAlert\<rparr>
      \<and> autopilotInterval A S ids now (autopilotTick A S ids now st) = autopilotTick A S ids now st)
   \<and> (consecutiveLosses st < 3 \<longrightarrow>
      systemAlert (autopilotTick A S ids now st) = systemAlert st
      \<or> systemAlert (autopilotTick A S ids now st) = Some drawdownAlert)
   \<and> (consecutiveLosses st < 3 \<and> currentBalance st \<noteq> 0
      \<and> \<not> dailyPnL st / currentBalance st * 100 \<le> - maxDrawdown (riskSettings st) \<longrightarrow>
      isAutoPilot (autopilotTick A S ids now st) = isAutoPilot st
      \<and> systemAlert (autopilotTick A S ids now st) = systemAlert st)
   \<and> lossAlert \<noteq> drawdownAlert"
  by (simp add: autopilotTick_def autopilotInterval_def Let_def autopilot_foldl_flags
      alerts_differ del: foldl.simps)

theorem loss_gate_witness:
  "consecutiveLosses threeLosses = 3 \<and> isAutoPilot threeLosses
   \<and> autopilotTick alwaysBuy fixedSize pairId 7 threeLosses
       = threeLosses\<lparr>isAutoPilot := False, systemAlert := Some lossAlert\<rparr>
   \<and> consecutiveLosses twoLosses = 2
   \<and> isAutoPilot (autopilotTick alwaysBuy fixedSize pairId 7 twoLosses)
   \<and> systemAlert (autopilotTick alwaysBuy fixedSize pairId 7 twoLosses) = None"
  using loss_gate [of threeLosses alwaysBuy fixedSize pairId 7]
    loss_gate [of twoLosses alwaysBuy fixedSize pairId 7]
  by (simp add: two_facts three_facts)

text \<open>
  C6. On an autopilot tick with \<open>consecutiveLosses < 3\<close> and a current balance that is
  not zero, if \<open>dailyPnL / currentBalance \<times> 100 \<le> - maxDrawdown\<close> then the tick does
  nothing but switch the autopilot off and raise the drawdown alert: no trade is
  opened on that tick, and with the autopilot off no later tick opens one. In
  particular this is so for \<open>maxDrawdown = 15\<close> and a cumulative PnL of minus 16
  percent of the current balance.
\<close>

theorem drawdown_gate:
  "(consecutiveLosses st < 3 \<and> currentBalance st \<noteq> 0
      \<and> dailyPnL st / currentBalance st * 100 \<le> - maxDrawdown (riskSettings st) \<longrightarrow>
      autopilotTick A S ids now st = st\<lparr>isAutoPilot := False, systemAlert := Some drawdownAlert\<rparr>
      \<and> trades (autopilotTick A S ids now st) = trades st
      \<and> autopilotInterval A S ids now (autopilotTick A S ids now st) = autopilotTick A S ids now st)
   \<and> (consecutiveLosses st < 3 \<and> currentBalance st \<noteq> 0
      \<and> maxDrawdown (riskSettings st) = 15 \<and> dailyPnL st = - 0.16 * currentBalance st \<longrightarrow>
      autopilotTick A S ids now st = st\<lparr>isAutoPilot := False, systemAlert := Some drawdownAlert\<rparr>)"
  by (simp add: autopilotTick_def autopilotInterval_def Let_def del: foldl.simps)

theorem drawdown_gate_witness:
  "consecutiveLosses deepDrawdown < 3 \<and> currentBalance deepDrawdown \<noteq> 0
   \<and> dailyPnL deepDrawdown / currentBalance deepDrawdown * 100 = - 16
   \<and> maxDrawdown (riskSettings deepDrawdown) = 15
   \<and> autopilotTick alwaysBuy fixedSize pairId 7 deepDrawdown
       = deepDrawdown\<lparr>isAutoPilot := False, systemAlert := Some drawdownAlert\<rparr>
   \<and> trades (autopilotTick alwaysBuy fixedSize pairId 7 deepDrawdown) = []"
  using drawdown_gate [of deepDrawdown alwaysBuy fixedSize pairId 7]
  by (simp add: deep_facts)

section \<open>The advisory pipeline\<close>

text \<open>
  C8 as stated (an empty or malformed response still yields a usable insight) fails
  for a response that is not well formed against the expected schema but is valid
  JSON: the source returns whatever \<open>JSON.parse\<close> gives, with a timestamp and the tag
  \<open>AI_GEN\<close>. For the response text \<open>{}\<close>, arriving after 100 ms, the caller receives an
  object with the fields \<open>source\<close> and \<open>timestamp\<close> only.
\<close>

theorem unvalidated_response_counterexample:
  "sanitizeJSON ''{}'' = ''{}''
   \<and> generateMarketInsight parseEmptyObject parseFloatTable alwaysBuy
       (Started (Resolves 100 \<lparr>response_text = Some ''{}''\<rparr>)) 0
       ''SOL/USDT'' (Some 198.5) (Some ''+0.50%'') None
     = (100, Inr (External (JObject []) 0 ''AI_GEN''))
   \<and> toObject (External (JObject []) 0 ''AI_GEN'')
     = [(''source'', JString ''AI_GEN''), (''timestamp'', JNumber 0)]
   \<and> \<not> usableInsight (toObject (External (JObject []) 0 ''AI_GEN''))"
  by (simp add: generateMarketInsight_def tryExternal_def race_def TIMEOUT_MS_def Let_def
      sanitizeJSON_def indexOf_def lastIndexOf_def substring_def parseEmptyObject_def
      toObject_def setField_def spread_def usableInsight_def)

text \<open>
  C8, amended. \<open>generateMarketInsight\<close> never rejects and settles no later than
  \<open>TIMEOUT_MS = 6500\<close> milliseconds after the call. When the request cannot be made,
  rejects, has not settled before the timeout, resolves with no text or an empty text,
  or with a text that \<open>JSON.parse\<close> rejects after \<open>sanitizeJSON\<close>, the result is the
  fallback insight: the pair as given, action, confidence and reason of the local
  analysis (\<open>analyzeTrend\<close> on 20 or more history points, else the 24h-change rule with
  confidence 70), the floored key levels, the time of the return and the provenance
  \<open>QUANT_ENGINE\<close>; it is a usable insight. A request that has not settled at the timeout
  gives exactly that at 6500 ms, however late it settles. In every other case the
  request resolved before the timeout with a text that parses, and the result is the
  parsed data as it is, with the timestamp and the provenance \<open>AI_GEN\<close>, at the time
  the request resolved: it is not validated, and it is a usable insight only when the
  data carries the insight's fields.
\<close>

theorem insight_fulfils:
  "(let R = generateMarketInsight pj pf A req now p cp ch h;
        changeVal = pf (remove1 (CHR ''%'')
                      (case ch of None \<Rightarrow> ''0'' | Some s \<Rightarrow> if s = [] then ''0'' else s));
        heuristic =
          \<lparr>analysis_action =
             (case changeVal of
                None \<Rightarrow> ActHOLD
              | Some x \<Rightarrow> if x > 2 then ActBUY else if x < - 2 then ActSELL else ActHOLD),
           analysis_confidence = 70,
           reason = ''Momentum analysis via 24h price deviation.''\<rparr>;
        an = (case h of
                None \<Rightarrow> heuristic
              | Some xs \<Rightarrow> if length xs \<ge> 20 then A xs else heuristic);
        v = (if str_includes p ''BTC'' then 0.02 else 0.04 :: real);
        dflt = (if str_includes p ''BTC'' then 96500
                else if str_includes p ''ETH'' then 2650 else 198 :: real);
        basePrice = (case cp of None \<Rightarrow> dflt | Some c \<Rightarrow> if c = 0 then dflt else c);
        fb = \<lparr>insight_pair = p,
                 confidence = analysis_confidence an,
                 action = analysis_action an,
                 reasoning = ''[QUANT ENGINE] '' @ reason an @ '' (Latency Bypass Active)'',
                 keyLevels =
                   \<lparr>support = of_int \<lfloor>basePrice * (1 - v)\<rfloor>,
                    resistance = of_int \<lfloor>basePrice * (1 + v)\<rfloor>\<rparr>,
                 insight_timestamp = now,
                 source = ''QUANT_ENGINE''\<rparr>
    in fst R \<le> TIMEOUT_MS
       \<and> (externalFails pj req \<longrightarrow>
            snd R = Inr (Fallback fb) \<and> usableInsight (toObject (Fallback fb)))
       \<and> (req = Started NeverSettles \<or> (\<exists>t. req = Started (Rejects t) \<and> t \<ge> TIMEOUT_MS)
            \<or> (\<exists>t r. req = Started (Resolves t r) \<and> t \<ge> TIMEOUT_MS) \<longrightarrow>
            R = (TIMEOUT_MS, Inr (Fallback fb)))
       \<and> (\<not> externalFails pj req \<longrightarrow>
            (\<exists>t r txt d. req = Started (Resolves t r) \<and> t < TIMEOUT_MS
               \<and> response_text r = Some txt \<and> txt \<noteq> []
               \<and> pj (sanitizeJSON txt) = Some d
               \<and> R = (t, Inr (External d now ''AI_GEN''))
               \<and> usableInsight (toObject (External d now ''AI_GEN''))
                   = usableInsight (spread d))))"
proof -
  have a: "fst (generateMarketInsight pj pf A req now p cp ch h) \<le> TIMEOUT_MS"
    by (rule generate_time)
  have b: "externalFails pj req \<longrightarrow>
      snd (generateMarketInsight pj pf A req now p cp ch h)
        = Inr (Fallback (quantFallback pf A now p cp ch h))
      \<and> usableInsight (toObject (Fallback (quantFallback pf A now p cp ch h)))"
    by (simp add: generate_fails usable_fallback)
  have c: "req = Started NeverSettles \<or> (\<exists>t. req = Started (Rejects t) \<and> t \<ge> TIMEOUT_MS)
      \<or> (\<exists>t r. req = Started (Resolves t r) \<and> t \<ge> TIMEOUT_MS) \<longrightarrow>
      generateMarketInsight pj pf A req now p cp ch h
        = (TIMEOUT_MS, Inr (Fallback (quantFallback pf A now p cp ch h)))"
    using generate_timeout by blast
  have d: "\<not> externalFails pj req \<longrightarrow>
      (\<exists>t r txt d. req = Started (Resolves t r) \<and> t < TIMEOUT_MS
         \<and> response_text r = Some txt \<and> txt \<noteq> []
         \<and> pj (sanitizeJSON txt) = Some d
         \<and> generateMarketInsight pj pf A req now p cp ch h = (t, Inr (External d now ''AI_GEN''))
         \<and> usableInsight (toObject (External d now ''AI_GEN'')) = usableInsight (spread d))"
    using generate_passthrough [of pj req pf A now p cp ch h] usable_external by blast
  from a b c d show ?thesis
    unfolding quantFallback_explicit Let_def by blast
qed

theorem insight_fulfils_witness:
  "externalFails parseEmptyObject (Started (Resolves 60000 \<lparr>response_text = Some ''{}''\<rparr>))
   \<and> generateMarketInsight parseEmptyObject parseFloatTable alwaysBuy
       (Started (Resolves 60000 \<lparr>response_text = Some ''{}''\<rparr>)) 0
       ''SOL/USDT'' (Some 198.5) (Some ''+0.50%'') None
     = (6500, Inr (Fallback
         \<lparr>insight_pair = ''SOL/USDT'', confidence = 70, action = ActHOLD,
          reasoning = ''[QUANT ENGINE] Momentum analysis via 24h price deviation. (Latency Bypass Active)'',
          keyLevels = \<lparr>support = 190, resistance = 206\<rparr>,
          insight_timestamp = 0, source = ''QUANT_ENGINE''\<rparr>))
   \<and> usableInsight (toObject (Fallback
         \<lparr>insight_pair = ''SOL/USDT'', confidence = 70, action = ActHOLD,
          reasoning = ''[QUANT ENGINE] Momentum analysis via 24h price deviation. (Latency Bypass Active)'',
          keyLevels = \<lparr>support = 190, resistance = 206\<rparr>,
          insight_timestamp = 0, source = ''QUANT_ENGINE''\<rparr>))"
proof -
  have f: "externalFails parseEmptyObject
             (Started (Resolves 60000 \<lparr>response_text = Some ''{}''\<rparr>))"
    by (simp add: externalFails_def TIMEOUT_MS_def)
  have t: "TIMEOUT_MS \<le> 60000 \<and> TIMEOUT_MS = 6500"
    by (simp add: TIMEOUT_MS_def)
  note a = insight_fulfils [where pj = parseEmptyObject and pf = parseFloatTable
      and A = alwaysBuy and req = "Started (Resolves 60000 \<lparr>response_text = Some ''{}''\<rparr>)"
      and now = 0 and p = "''SOL/USDT''" and cp = "Some 198.5" and ch = "Some ''+0.50%''"
      and h = None]
  from a f t show ?thesis
    by (simp add: Let_def parseFloatTable_def startsWith_def)
qed

text \<open>
  C9 as stated (on a failure path with fewer than 20 history points the support and
  resistance levels equal \<open>price \<times> (1 - v)\<close> and \<open>price \<times> (1 + v)\<close>) fails: the source
  applies \<open>Math.floor\<close> to both. For SOL/USDT at 198.5 with \<open>v = 0.04\<close> the levels are
  190 and 206, not 190.56 and 206.44.
\<close>

theorem fallback_levels_counterexample:
  "snd (generateMarketInsight parseFails parseFloatTable alwaysBuy (Started NeverSettles) 0
          ''SOL/USDT'' (Some 198.5) (Some ''+0.50%'') None)
     = Inr (Fallback
         \<lparr>insight_pair = ''SOL/USDT'', confidence = 70, action = ActHOLD,
          reasoning = ''[QUANT ENGINE] Momentum analysis via 24h price deviation. (Latency Bypass Active)'',
          keyLevels = \<lparr>support = 190, resistance = 206\<rparr>,
          insight_timestamp = 0, source = ''QUANT_ENGINE''\<rparr>)
   \<and> (190 :: real) \<noteq> 198.5 * (1 - 0.04)
   \<and> (206 :: real) \<noteq> 198.5 * (1 + 0.04)"
  by (simp add: generateMarketInsight_def tryExternal_def race_def quantFallback_def Let_def
      parseFloatTable_def startsWith_def)

text \<open>
  C9, amended. On every failure path of \<open>generateMarketInsight\<close> where no history or
  fewer than 20 history points are given, the insight returned has action BUY if the
  24h change (\<open>parseFloat\<close> of the change string without its first percent sign, \<open>"0"\<close>
  when the string is missing or empty) is greater than 2, SELL if it is less than
  \<open>-2\<close>, else HOLD (also when it is NaN), confidence exactly 70, support
  \<open>floor (basePrice \<times> (1 - v))\<close> and resistance \<open>floor (basePrice \<times> (1 + v))\<close>, where \<open>v\<close> is
  0.02 for a pair containing BTC and 0.04 otherwise, and \<open>basePrice\<close> is the price given
  or, when none or zero is given, 96500 for BTC, 2650 for ETH and 198 otherwise.
\<close>

theorem fallback_heuristic:
  "externalFails pj req \<and> (case h of None \<Rightarrow> True | Some xs \<Rightarrow> length xs < 20) \<longrightarrow>
   (let changeVal = pf (remove1 (CHR ''%'')
                      (case ch of None \<Rightarrow> ''0'' | Some s \<Rightarrow> if s = [] then ''0'' else s));
        v = (if str_includes p ''BTC'' then 0.02 else 0.04 :: real);
        dflt = (if str_includes p ''BTC'' then 96500
                else if str_includes p ''ETH'' then 2650 else 198 :: real);
        basePrice = (case cp of None \<Rightarrow> dflt | Some c \<Rightarrow> if c = 0 then dflt else c)
    in \<exists>ins. snd (generateMarketInsight pj pf A req now p cp ch h) = Inr (Fallback ins)
        \<and> action ins = (case changeVal of
                          None \<Rightarrow> ActHOLD
                        | Some x \<Rightarrow> if x > 2 then ActBUY else if x < - 2 then ActSELL else ActHOLD)
        \<and> confidence ins = 70
        \<and> support (keyLevels ins) = of_int \<lfloor>basePrice * (1 - v)\<rfloor>
        \<and> resistance (keyLevels ins) = of_int \<lfloor>basePrice * (1 + v)\<rfloor>)"
proof (intro impI)
  assume a: "externalFails pj req \<and> (case h of None \<Rightarrow> True | Some xs \<Rightarrow> length xs < 20)"
  then have g: "snd (generateMarketInsight pj pf A req now p cp ch h)
     = Inr (Fallback (quantFallback pf A now p cp ch h))"
    by (simp add: generate_fails)
  from a show "let changeVal = pf (remove1 (CHR ''%'')
                      (case ch of None \<Rightarrow> ''0'' | Some s \<Rightarrow> if s = [] then ''0'' else s));
        v = (if str_includes p ''BTC'' then 0.02 else 0.04 :: real);
        dflt = (if str_includes p ''BTC'' then 96500
                else if str_includes p ''ETH'' then 2650 else 198 :: real);
        basePrice = (case cp of None \<Rightarrow> dflt | Some c \<Rightarrow> if c = 0 then dflt else c)
    in \<exists>ins. snd (generateMarketInsight pj pf A req now p cp ch h) = Inr (Fallback ins)
        \<and> action ins = (case changeVal of
                          None \<Rightarrow> ActHOLD
                        | Some x \<Rightarrow> if x > 2 then ActBUY else if x < - 2 then ActSELL else ActHOLD)
        \<and> confidence ins = 70
        \<and> support (keyLevels ins) = of_int \<lfloor>basePrice * (1 - v)\<rfloor>
        \<and> resistance (keyLevels ins) = of_int \<lfloor>basePrice * (1 + v)\<rfloor>"
    unfolding g Let_def
    by (cases h) (simp_all add: quantFallback_def Let_def)
qed

theorem fallback_heuristic_witness:
  "externalFails parseFails (Started NeverSettles)
   \<and> (\<exists>ins. snd (generateMarketInsight parseFails parseFloatTable alwaysBuy (Started NeverSettles) 0
                  ''BTC/USDT'' None (Some ''+2.50%'') (Some [1, 2, 3])) = Inr (Fallback ins)
        \<and> action ins = ActBUY \<and> confidence ins = 70
        \<and> support (keyLevels ins) = 94570 \<and> resistance (keyLevels ins) = 98430)"
  using fallback_heuristic [where pj = parseFails and pf = parseFloatTable and A = alwaysBuy
      and req = "Started NeverSettles" and now = 0 and p = "''BTC/USDT''" and cp = None
      and ch = "Some ''+2.50%''" and h = "Some [1, 2, 3]"]
  by (simp add: externalFails_def Let_def parseFloatTable_def startsWith_def)

end
